theory Spec2Isabelle
  imports
    Main
    "HOL-Library.Word"
    "HOL-Library.Char_ord"
    "HOL-Library.List_Lexorder"
    "HOL-Library.Option_ord"
    "HOL-Library.Product_Lexorder"
    "HOL-Library.Finite_Map"
    "HOL-Library.Multiset"
begin

unbundle bit_operations_syntax

section \<open>txkube: the object model of \<^verbatim>\<open>src/txkube/_model.py\<close>\<close>

text \<open>
  The module is Python 2. Its classes are persistent records (pyrsistent \<^verbatim>\<open>PClass\<close>)
  synthesised from a Swagger document; every update returns a new value. The embedding
  follows that: a class is a \<^theory_text>\<open>record\<close>, an update is a record update, an exception
  is a value \<open>Inl e\<close> of a sum type, and the one effect of the module, the random draw of
  \<^verbatim>\<open>uuid4()\<close>, is an explicit argument.

  Unicode strings are \<^typ>\<open>string\<close> (characters compared by code, strings
  lexicographically, as Python compares them), Python's \<^verbatim>\<open>None\<close> in an optional field is
  \<^term>\<open>None\<close>, and Python 2 orders \<^verbatim>\<open>None\<close> before every string, which is the order of
  \<^typ>\<open>string option\<close>.
\<close>

subsection \<open>Raw records and errors\<close>

text \<open>
  A raw record is the JSON-like value that travels on the wire: a mapping from string keys
  to raw values (null, booleans, integers, strings, lists and nested mappings). Mappings
  are finite maps, so two records are equal when they hold the same keys and values, as
  two Python dictionaries are.
\<close>

datatype raw =
    RNone
  | RBool bool
  | RInt int
  | RStr string
  | RList "raw list"
  | RDict "(string, raw) fmap"

type_synonym raw_record = "(string, raw) fmap"

text \<open>
  The exceptions of the module, named as the design document names them:
  \<^item> \<open>NotFoundError\<close>: the \<^verbatim>\<open>KeyError(name)\<close> that \<^verbatim>\<open>item_by_name\<close> raises, and the exception
    with which the item vector's \<^verbatim>\<open>remove\<close> refuses a value it does not hold;
  \<^item> \<open>UnknownKindError\<close>: the \<^verbatim>\<open>KeyError\<close> of the lookup \<^verbatim>\<open>_versions[apiVersion]\<close>, which is the
    exception that the docstring of \<^verbatim>\<open>iobject_from_raw\<close> announces ("raise KeyError: If the
    kind of object is unsupported");
  \<^item> \<open>TypeError\<close>: Python's \<^verbatim>\<open>getattr\<close> called with an attribute name that is not a string;
  \<^item> \<open>AttributeError\<close>: the access to an attribute that an object does not have, as
    \<^verbatim>\<open>.create\<close> on an object that is not a class of the catalogue;
  \<^item> \<open>CreateError\<close>: a class's \<^verbatim>\<open>create\<close> refusing a mapping that does not fit its fields.
\<close>

datatype error = NotFoundError | UnknownKindError | TypeError | AttributeError | CreateError

subsection \<open>Resource values\<close>

text \<open>
  Modelled from the spec: the field declarations of the classes come from the schema
  document \<^verbatim>\<open>kubernetes-1.5.json\<close> through \<^verbatim>\<open>txkube/_swagger.py\<close>, neither of which is among
  the sources. The records below hold the fields that \<^verbatim>\<open>_model.py\<close> reads or writes
  (\<^verbatim>\<open>metadata.name\<close>, \<^verbatim>\<open>metadata.namespace\<close>, \<^verbatim>\<open>metadata.uid\<close>, \<^verbatim>\<open>status\<close>, \<^verbatim>\<open>phase\<close>, \<^verbatim>\<open>items\<close>), the
  resource version stamp that the design document lists in the metadata, and the \<^verbatim>\<open>data\<close>
  of a ConfigMap as its kind-specific body. Every field of the metadata is optional
  (the tests build \<^verbatim>\<open>v1.ObjectMeta(namespace=n)\<close> with no name); a field that was not given
  reads as \<^term>\<open>None\<close>.
\<close>

record ObjectMeta =
  name :: "string option"
  namespace :: "string option"
  uid :: "string option"
  resourceVersion :: "string option"

record NamespaceStatus =
  phase :: "string option"

text \<open>
  \<^verbatim>\<open>IObject\<close> is what the functions of the module need of a resource value: a \<^verbatim>\<open>metadata\<close>
  attribute. \<^verbatim>\<open>Namespace\<close> and \<^verbatim>\<open>ConfigMap\<close> extend it, so a function written for
  \<open>'a IObject_scheme\<close> takes either, as the duck-typed Python does.
\<close>

record IObject =
  metadata :: ObjectMeta

record Namespace = IObject +
  status :: "NamespaceStatus option"

record ConfigMap = IObject +
  data :: "(string, string) fmap option"

text \<open>\<^verbatim>\<open>_List\<close>, the mix-in of \<^verbatim>\<open>NamespaceList\<close> and \<^verbatim>\<open>ConfigMapList\<close>: a vector of items.\<close>

record 'a List_ =
  items :: "'a list"

type_synonym NamespaceList = "Namespace List_"
type_synonym ConfigMapList = "ConfigMap List_"

definition ObjectMeta_empty :: ObjectMeta where
  "ObjectMeta_empty = \<lparr>name = None, namespace = None, uid = None, resourceVersion = None\<rparr>"

definition NamespaceStatus_active :: NamespaceStatus where
  "NamespaceStatus_active = \<lparr>phase = Some ''Active''\<rparr>"

definition NamespaceStatus_terminating :: NamespaceStatus where
  "NamespaceStatus_terminating = \<lparr>phase = Some ''Terminating''\<rparr>"

definition Namespace_named :: "string \<Rightarrow> Namespace" where
  "Namespace_named n = \<lparr>metadata = ObjectMeta_empty\<lparr>name := Some n\<rparr>, status = None\<rparr>"

definition Namespace_default :: Namespace where
  "Namespace_default = Namespace_named ''default''"

definition ConfigMap_named :: "string \<Rightarrow> string \<Rightarrow> ConfigMap" where
  "ConfigMap_named ns n =
     \<lparr>metadata = ObjectMeta_empty\<lparr>namespace := Some ns, name := Some n\<rparr>, data = None\<rparr>"

subsection \<open>\<^verbatim>\<open>uuid4\<close> and \<^verbatim>\<open>Namespace.fill_defaults\<close>\<close>

text \<open>
  \<^verbatim>\<open>unicode(uuid4())\<close> of Python's standard library: \<^verbatim>\<open>uuid4()\<close> is
  \<^verbatim>\<open>UUID(bytes=os.urandom(16), version=4)\<close>. The constructor reads the 16 bytes as one 128-bit
  integer and stamps the variant and the version on it:
  \<^verbatim>\<open>
    int &= ~(0xc000 << 48L);  int |= 0x8000 << 48L
    int &= ~(0xf000 << 64L);  int |= version << 76L
  \<close>
  and \<^verbatim>\<open>str\<close> prints \<^verbatim>\<open>'%032x' % int\<close> in the groups 8-4-4-4-12. The random bytes are the
  argument \<open>r\<close>.
\<close>

type_synonym u128 = "128 word"

definition uuid4 :: "u128 \<Rightarrow> u128" where
  "uuid4 r =
     (((r AND NOT (push_bit 48 0xc000)) OR push_bit 48 0x8000)
        AND NOT (push_bit 64 0xf000)) OR push_bit 76 4"

text \<open>
  What the constructor keeps of the draw: the draw after its two \<^verbatim>\<open>&= ~mask\<close> steps, which
  clear the two variant bits and the four version bits and leave the other 122.
\<close>

definition random_bits :: "u128 \<Rightarrow> u128" where
  "random_bits r = (r AND NOT (push_bit 48 0xc000)) AND NOT (push_bit 64 0xf000)"

definition hexdigit :: "nat \<Rightarrow> char" where
  "hexdigit d = ''0123456789abcdef'' ! d"

definition nibble :: "u128 \<Rightarrow> nat \<Rightarrow> nat" where
  "nibble w i = unat (drop_bit (4 * i) w AND 15)"

definition hex32 :: "u128 \<Rightarrow> string" where
  "hex32 w = map (\<lambda>i. hexdigit (nibble w (31 - i))) [0..<32]"

definition str_UUID :: "u128 \<Rightarrow> string" where
  "str_UUID w =
     (let h = hex32 w in
      take 8 h @ ''-'' @ take 4 (drop 8 h) @ ''-'' @ take 4 (drop 12 h) @ ''-'' @
      take 4 (drop 16 h) @ ''-'' @ drop 20 h)"

text \<open>
  \<^verbatim>\<open>
    def fill_defaults(self):
        return self.transform(
            [u"metadata", u"uid"], unicode(uuid4()),
            [u"status"], NamespaceStatus.active(),
        )
  \<close>
\<close>

definition fill_defaults :: "u128 \<Rightarrow> Namespace \<Rightarrow> Namespace" where
  "fill_defaults r self =
     self\<lparr>metadata := (metadata self)\<lparr>uid := Some (str_UUID (uuid4 r))\<rparr>,
          status := Some NamespaceStatus_active\<rparr>"

text \<open>\<^verbatim>\<open>ConfigMap.fill_defaults\<close> returns \<^verbatim>\<open>self\<close>.\<close>

definition ConfigMap_fill_defaults :: "ConfigMap \<Rightarrow> ConfigMap" where
  "ConfigMap_fill_defaults self = self"

subsection \<open>Collections\<close>

text \<open>
  \<^verbatim>\<open>
    def object_sort_key(obj):
        return (getattr(obj.metadata, "namespace", None), obj.metadata.name)
  \<close>
  Python compares the tuples lexicographically, which is the order of the product type.
\<close>

definition object_sort_key :: "'a IObject_scheme \<Rightarrow> string option \<times> string option" where
  "object_sort_key obj = (namespace (metadata obj), name (metadata obj))"

text \<open>
  \<^verbatim>\<open>add(value)\<close> is the evolver \<^verbatim>\<open>sorted(pvector.append(value), key=object_sort_key)\<close>; Python's
  \<^verbatim>\<open>sorted\<close> is stable, as \<^const>\<open>sort_key\<close> is. \<^verbatim>\<open>remove(value)\<close> is the evolver
  \<^verbatim>\<open>pset.remove(value)\<close>: the vector without the first item equal to \<^verbatim>\<open>value\<close>, or an
  exception when no item is.
\<close>

definition add :: "'a IObject_scheme \<Rightarrow> 'a IObject_scheme list \<Rightarrow> 'a IObject_scheme list" where
  "add v pvector = sort_key object_sort_key (pvector @ [v])"

definition remove :: "'a \<Rightarrow> 'a list \<Rightarrow> error + 'a list" where
  "remove v pset = (if v \<in> set pset then Inr (remove1 v pset) else Inl NotFoundError)"

text \<open>
  \<^verbatim>\<open>
    def item_by_name(self, name):
        for obj in self.items:
            if obj.metadata.name == name:
                return obj
        raise KeyError(name)
  \<close>
\<close>

fun item_by_name_loop :: "'a IObject_scheme list \<Rightarrow> string \<Rightarrow> error + 'a IObject_scheme" where
  "item_by_name_loop [] n = Inl NotFoundError"
| "item_by_name_loop (obj # rest) n =
     (if name (metadata obj) = Some n then Inr obj else item_by_name_loop rest n)"

definition item_by_name :: "'a IObject_scheme List_ \<Rightarrow> string \<Rightarrow> error + 'a IObject_scheme" where
  "item_by_name self n = item_by_name_loop (items self) n"

text \<open>
  \<^verbatim>\<open>_List.add\<close> is \<^verbatim>\<open>self.transform([u"items"], add(obj))\<close>. \<^verbatim>\<open>_List.replace\<close> is
  \<^verbatim>\<open>self.transform([u"items"], remove(old), [u"items"], add(new))\<close>: the two steps run in
  order, and the exception of the first leaves no result.
\<close>

definition List_add :: "'a IObject_scheme List_ \<Rightarrow> 'a IObject_scheme \<Rightarrow> 'a IObject_scheme List_" where
  "List_add self obj = self\<lparr>items := add obj (items self)\<rparr>"

definition List_replace ::
  "'a IObject_scheme List_ \<Rightarrow> 'a IObject_scheme \<Rightarrow> 'a IObject_scheme \<Rightarrow> error + 'a IObject_scheme List_" where
  "List_replace self old new =
     (case remove old (items self) of
        Inl e \<Rightarrow> Inl e
      | Inr removed \<Rightarrow> Inr (self\<lparr>items := add new removed\<rparr>))"

text \<open>
  The order the design document states: namespace ascending with no namespace least, then
  name ascending.
\<close>

fun namespace_before :: "string option \<Rightarrow> string option \<Rightarrow> bool" where
  "namespace_before None (Some b) = True"
| "namespace_before (Some a) (Some b) = (a < b)"
| "namespace_before a None = False"

definition ordered_pair :: "'a IObject_scheme \<Rightarrow> 'a IObject_scheme \<Rightarrow> bool" where
  "ordered_pair x y =
     (namespace_before (namespace (metadata x)) (namespace (metadata y)) \<or>
      namespace (metadata x) = namespace (metadata y) \<and> name (metadata x) \<le> name (metadata y))"

subsection \<open>The raw codec\<close>

text \<open>
  Modelled from the spec: \<^verbatim>\<open>serialize\<close> and \<^verbatim>\<open>create\<close> are methods that the classes inherit
  from pyrsistent and \<^verbatim>\<open>txkube/_swagger.py\<close>, which are not among the sources. The design
  document: \<^verbatim>\<open>to_raw\<close> "serializes the typed value's fields", \<^verbatim>\<open>from_raw\<close> "constructs the
  typed value from the remainder". Here \<^verbatim>\<open>serialize\<close> writes every field under its name, a
  \<^term>\<open>None\<close> as \<^term>\<open>RNone\<close> and a nested record as a nested mapping; \<^verbatim>\<open>create\<close> refuses a
  key that is not a field and a value of the wrong shape, and reads a missing optional
  field as \<^term>\<open>None\<close>.
\<close>

definition err_bind :: "error + 'a \<Rightarrow> ('a \<Rightarrow> error + 'b) \<Rightarrow> error + 'b" where
  "err_bind r f = (case r of Inl e \<Rightarrow> Inl e | Inr x \<Rightarrow> f x)"

fun err_all :: "(error + 'a) list \<Rightarrow> error + 'a list" where
  "err_all [] = Inr []"
| "err_all (r # rs) = err_bind r (\<lambda>x. err_bind (err_all rs) (\<lambda>xs. Inr (x # xs)))"

fun serialize_str :: "string option \<Rightarrow> raw" where
  "serialize_str None = RNone"
| "serialize_str (Some s) = RStr s"

fun create_str :: "raw option \<Rightarrow> error + string option" where
  "create_str None = Inr None"
| "create_str (Some RNone) = Inr None"
| "create_str (Some (RStr s)) = Inr (Some s)"
| "create_str (Some other) = Inl CreateError"

definition ObjectMeta_serialize :: "ObjectMeta \<Rightarrow> raw_record" where
  "ObjectMeta_serialize m =
     fmupd ''name'' (serialize_str (name m))
       (fmupd ''namespace'' (serialize_str (namespace m))
         (fmupd ''uid'' (serialize_str (uid m))
           (fmupd ''resourceVersion'' (serialize_str (resourceVersion m)) fmempty)))"

definition ObjectMeta_create :: "raw_record \<Rightarrow> error + ObjectMeta" where
  "ObjectMeta_create d =
     (if fmdom d |\<subseteq>| {|''name'', ''namespace'', ''uid'', ''resourceVersion''|} then
        err_bind (create_str (fmlookup d ''name'')) (\<lambda>n.
        err_bind (create_str (fmlookup d ''namespace'')) (\<lambda>ns.
        err_bind (create_str (fmlookup d ''uid'')) (\<lambda>u.
        err_bind (create_str (fmlookup d ''resourceVersion'')) (\<lambda>rv.
        Inr \<lparr>name = n, namespace = ns, uid = u, resourceVersion = rv\<rparr>))))
      else Inl CreateError)"

definition NamespaceStatus_serialize :: "NamespaceStatus \<Rightarrow> raw_record" where
  "NamespaceStatus_serialize s = fmupd ''phase'' (serialize_str (phase s)) fmempty"

definition NamespaceStatus_create :: "raw_record \<Rightarrow> error + NamespaceStatus" where
  "NamespaceStatus_create d =
     (if fmdom d |\<subseteq>| {|''phase''|} then
        err_bind (create_str (fmlookup d ''phase'')) (\<lambda>p. Inr \<lparr>phase = p\<rparr>)
      else Inl CreateError)"

fun create_metadata :: "raw option \<Rightarrow> error + ObjectMeta" where
  "create_metadata (Some (RDict d)) = ObjectMeta_create d"
| "create_metadata other = Inl CreateError"

fun serialize_status :: "NamespaceStatus option \<Rightarrow> raw" where
  "serialize_status None = RNone"
| "serialize_status (Some s) = RDict (NamespaceStatus_serialize s)"

fun create_status :: "raw option \<Rightarrow> error + NamespaceStatus option" where
  "create_status None = Inr None"
| "create_status (Some RNone) = Inr None"
| "create_status (Some (RDict d)) = err_bind (NamespaceStatus_create d) (\<lambda>s. Inr (Some s))"
| "create_status (Some other) = Inl CreateError"

definition Namespace_serialize :: "Namespace \<Rightarrow> raw_record" where
  "Namespace_serialize self =
     fmupd ''metadata'' (RDict (ObjectMeta_serialize (metadata self)))
       (fmupd ''status'' (serialize_status (status self)) fmempty)"

definition Namespace_create :: "raw_record \<Rightarrow> error + Namespace" where
  "Namespace_create d =
     (if fmdom d |\<subseteq>| {|''metadata'', ''status''|} then
        err_bind (create_metadata (fmlookup d ''metadata'')) (\<lambda>m.
        err_bind (create_status (fmlookup d ''status'')) (\<lambda>s.
        Inr \<lparr>metadata = m, status = s\<rparr>))
      else Inl CreateError)"

definition is_RStr :: "raw \<Rightarrow> bool" where
  "is_RStr v = (case v of RStr s \<Rightarrow> True | _ \<Rightarrow> False)"

definition the_RStr :: "raw \<Rightarrow> string" where
  "the_RStr v = (case v of RStr s \<Rightarrow> s | _ \<Rightarrow> [])"

fun serialize_data :: "(string, string) fmap option \<Rightarrow> raw" where
  "serialize_data None = RNone"
| "serialize_data (Some d) = RDict (fmmap RStr d)"

fun create_data :: "raw option \<Rightarrow> error + (string, string) fmap option" where
  "create_data None = Inr None"
| "create_data (Some RNone) = Inr None"
| "create_data (Some (RDict d)) =
     (if fmpred (\<lambda>k v. is_RStr v) d then Inr (Some (fmmap the_RStr d)) else Inl CreateError)"
| "create_data (Some other) = Inl CreateError"

definition ConfigMap_serialize :: "ConfigMap \<Rightarrow> raw_record" where
  "ConfigMap_serialize self =
     fmupd ''metadata'' (RDict (ObjectMeta_serialize (metadata self)))
       (fmupd ''data'' (serialize_data (data self)) fmempty)"

definition ConfigMap_create :: "raw_record \<Rightarrow> error + ConfigMap" where
  "ConfigMap_create d =
     (if fmdom d |\<subseteq>| {|''metadata'', ''data''|} then
        err_bind (create_metadata (fmlookup d ''metadata'')) (\<lambda>m.
        err_bind (create_data (fmlookup d ''data'')) (\<lambda>dat.
        Inr \<lparr>metadata = m, data = dat\<rparr>))
      else Inl CreateError)"

fun create_item :: "(raw_record \<Rightarrow> error + 'a) \<Rightarrow> raw \<Rightarrow> error + 'a" where
  "create_item cls (RDict d) = cls d"
| "create_item cls other = Inl CreateError"

fun create_items :: "(raw_record \<Rightarrow> error + 'a) \<Rightarrow> raw option \<Rightarrow> error + 'a list" where
  "create_items cls (Some (RList rs)) = err_all (map (create_item cls) rs)"
| "create_items cls other = Inl CreateError"

definition List_serialize :: "('a \<Rightarrow> raw_record) \<Rightarrow> 'a List_ \<Rightarrow> raw_record" where
  "List_serialize item_serialize self =
     fmupd ''items'' (RList (map (\<lambda>obj. RDict (item_serialize obj)) (items self))) fmempty"

definition List_create :: "(raw_record \<Rightarrow> error + 'a) \<Rightarrow> raw_record \<Rightarrow> error + 'a List_" where
  "List_create item_create d =
     (if fmdom d |\<subseteq>| {|''items''|} then
        err_bind (create_items item_create (fmlookup d ''items'')) (\<lambda>xs. Inr \<lparr>items = xs\<rparr>)
      else Inl CreateError)"

text \<open>
  The values of the classes that \<^verbatim>\<open>_model.py\<close> defines (the four that provide \<^verbatim>\<open>IObject\<close>,
  and \<^verbatim>\<open>NamespaceStatus\<close>), with the class attributes \<^verbatim>\<open>kind\<close> and \<^verbatim>\<open>apiVersion\<close> that \<^verbatim>\<open>VersionedPClasses(spec, u"v1", name_field=u"kind",
  version_field=u"apiVersion")\<close> gives each class.
\<close>

datatype v1_object =
    Namespace_object Namespace
  | ConfigMap_object ConfigMap
  | NamespaceList_object NamespaceList
  | ConfigMapList_object ConfigMapList
  | NamespaceStatus_object NamespaceStatus

fun kind :: "v1_object \<Rightarrow> string" where
  "kind (Namespace_object x) = ''Namespace''"
| "kind (ConfigMap_object x) = ''ConfigMap''"
| "kind (NamespaceList_object x) = ''NamespaceList''"
| "kind (ConfigMapList_object x) = ''ConfigMapList''"
| "kind (NamespaceStatus_object x) = ''NamespaceStatus''"

definition apiVersion :: "v1_object \<Rightarrow> string" where
  "apiVersion obj = ''v1''"

fun serialize :: "v1_object \<Rightarrow> raw_record" where
  "serialize (Namespace_object x) = Namespace_serialize x"
| "serialize (ConfigMap_object x) = ConfigMap_serialize x"
| "serialize (NamespaceList_object x) = List_serialize Namespace_serialize x"
| "serialize (ConfigMapList_object x) = List_serialize ConfigMap_serialize x"
| "serialize (NamespaceStatus_object x) = NamespaceStatus_serialize x"

text \<open>
  The catalogue of a version is the object \<^verbatim>\<open>v1 = VersionedPClasses(spec, u"v1", ...)\<close>, and a
  kind is looked up in it as an attribute, \<^verbatim>\<open>getattr(v, kind)\<close>. The class of that object is
  in \<^verbatim>\<open>txkube/_swagger.py\<close>, which is not among the sources, so what the lookup of a name
  yields is a parameter: a class (given by its \<^verbatim>\<open>create\<close>), some other attribute of the
  object (\<^verbatim>\<open>__class__\<close>, \<^verbatim>\<open>__doc__\<close>, \<^verbatim>\<open>spec\<close>, ...), which has no \<^verbatim>\<open>create\<close>, or the exception
  that the object raises for a name it does not resolve.
\<close>

datatype 'v attribute =
    Class "raw_record \<Rightarrow> error + 'v"
  | Other

type_synonym 'v catalogue = "string \<Rightarrow> error + 'v attribute"

fun create :: "'v attribute \<Rightarrow> raw_record \<Rightarrow> error + 'v" where
  "create (Class cls) others = cls others"
| "create Other others = Inl AttributeError"

text \<open>
  \<^verbatim>\<open>@behavior(v1)\<close> is \<^verbatim>\<open>setattr(v1, cls.__name__, cls)\<close>: the five classes of \<^verbatim>\<open>_model.py\<close> are
  attributes of \<^verbatim>\<open>v1\<close> under their names. Every other name is looked up as the schema-built
  object looks it up, the parameter \<open>schema\<close>.
\<close>

definition v1 :: "v1_object catalogue \<Rightarrow> v1_object catalogue" where
  "v1 schema k =
     (if k = ''NamespaceStatus'' then
        Inr (Class (\<lambda>d. err_bind (NamespaceStatus_create d) (\<lambda>x. Inr (NamespaceStatus_object x))))
      else if k = ''Namespace'' then
        Inr (Class (\<lambda>d. err_bind (Namespace_create d) (\<lambda>x. Inr (Namespace_object x))))
      else if k = ''ConfigMap'' then
        Inr (Class (\<lambda>d. err_bind (ConfigMap_create d) (\<lambda>x. Inr (ConfigMap_object x))))
      else if k = ''NamespaceList'' then
        Inr (Class (\<lambda>d. err_bind (List_create Namespace_create d)
                          (\<lambda>x. Inr (NamespaceList_object x))))
      else if k = ''ConfigMapList'' then
        Inr (Class (\<lambda>d. err_bind (List_create ConfigMap_create d)
                          (\<lambda>x. Inr (ConfigMapList_object x))))
      else schema k)"

text \<open>
  \<^verbatim>\<open>
    def iobject_to_raw(obj):
        result = obj.serialize()
        result.update({u"kind": obj.kind, u"apiVersion": obj.apiVersion})
        return result
  \<close>
\<close>

definition iobject_to_raw :: "v1_object \<Rightarrow> raw_record" where
  "iobject_to_raw obj =
     fmupd ''apiVersion'' (RStr (apiVersion obj)) (fmupd ''kind'' (RStr (kind obj)) (serialize obj))"

text \<open>
  \<^verbatim>\<open>
    _versions = {u"v1": v1}

    @mutant
    def iobject_from_raw(obj, kind_hint=None, version_hint=None):
        kind = obj.get(u"kind", kind_hint)
        apiVersion = obj.get(u"apiVersion", version_hint)
        v = _versions[apiVersion]
        cls = getattr(v, kind)
        others = obj.discard(u"kind").discard(u"apiVersion")
        return cls.create(others)
  \<close>
  \<^verbatim>\<open>@mutant\<close> freezes the argument into a persistent mapping. The catalogue of version
  \<^verbatim>\<open>v1\<close> is a parameter. \<^verbatim>\<open>_versions[apiVersion]\<close> raises \<^verbatim>\<open>KeyError\<close> for every key but \<^verbatim>\<open>u"v1"\<close>,
  \<^verbatim>\<open>None\<close> included. Python's \<^verbatim>\<open>getattr\<close> raises \<^verbatim>\<open>TypeError\<close> when the name is not a string,
  before it looks at the object; for a string it is the object's attribute lookup.
  \<^verbatim>\<open>cls.create\<close> is the \<^verbatim>\<open>create\<close> of what the lookup returned.
\<close>

definition get :: "raw_record \<Rightarrow> string \<Rightarrow> raw \<Rightarrow> raw" where
  "get obj k dflt = (case fmlookup obj k of Some x \<Rightarrow> x | None \<Rightarrow> dflt)"

definition versions :: "'v catalogue \<Rightarrow> raw \<Rightarrow> error + 'v catalogue" where
  "versions v a = (if a = RStr ''v1'' then Inr v else Inl UnknownKindError)"

fun getattr :: "'v catalogue \<Rightarrow> raw \<Rightarrow> error + 'v attribute" where
  "getattr v (RStr k) = v k"
| "getattr v other = Inl TypeError"

definition iobject_from_raw :: "'v catalogue \<Rightarrow> raw_record \<Rightarrow> raw \<Rightarrow> raw \<Rightarrow> error + 'v" where
  "iobject_from_raw v1c obj kind_hint version_hint =
     (let kind = get obj ''kind'' kind_hint;
          apiVersion = get obj ''apiVersion'' version_hint
      in err_bind (versions v1c apiVersion) (\<lambda>v.
         err_bind (getattr v kind) (\<lambda>cls.
         create cls (fmdrop ''apiVersion'' (fmdrop ''kind'' obj)))))"

subsection \<open>The path resolver\<close>

text \<open>
  Modelled from the spec: \<^verbatim>\<open>collection_location\<close> lives in \<^verbatim>\<open>txkube/_network.py\<close>, which is not
  among the sources; only its tests are (\<^verbatim>\<open>CollectionLocationTests\<close>). The rules of the
  design document, in its order:
  \<^enum> if \<^verbatim>\<open>apiVersion == "v1"\<close> the base is \<^verbatim>\<open>["api", "v1"]\<close>, otherwise
    \<^verbatim>\<open>["apis", <group derived from apiVersion>, <version>]\<close>;
  \<^enum> if the descriptor carries a non-empty namespace, \<^verbatim>\<open>["namespaces", namespace]\<close> follows;
  \<^enum> the lower-cased kind with \<^verbatim>\<open>"s"\<close> appended is the last segment.
  An instance gives the namespace of its metadata, a bare type gives none. The document
  does not say how the group is derived, so the derivation is the parameter \<open>group_of\<close>.
  Kinds are ASCII, and \<open>lower_char\<close> lowers the letters A to Z.
\<close>

datatype descriptor =
    Instance string string ObjectMeta
  | BareType string string

fun descriptor_apiVersion :: "descriptor \<Rightarrow> string" where
  "descriptor_apiVersion (Instance v k m) = v"
| "descriptor_apiVersion (BareType v k) = v"

fun descriptor_kind :: "descriptor \<Rightarrow> string" where
  "descriptor_kind (Instance v k m) = k"
| "descriptor_kind (BareType v k) = k"

fun descriptor_namespace :: "descriptor \<Rightarrow> string option" where
  "descriptor_namespace (Instance v k m) = namespace m"
| "descriptor_namespace (BareType v k) = None"

definition lower_char :: "char \<Rightarrow> char" where
  "lower_char c =
     (if CHR ''A'' \<le> c \<and> c \<le> CHR ''Z'' then char_of (of_char c + (32 :: nat)) else c)"

definition lower :: "string \<Rightarrow> string" where
  "lower s = map lower_char s"

definition collection_location :: "(string \<Rightarrow> string) \<Rightarrow> descriptor \<Rightarrow> string list" where
  "collection_location group_of obj =
     (if descriptor_apiVersion obj = ''v1'' then [''api'', ''v1'']
      else [''apis'', group_of (descriptor_apiVersion obj), descriptor_apiVersion obj]) @
     (case descriptor_namespace obj of
        None \<Rightarrow> []
      | Some ns \<Rightarrow> if ns = [] then [] else [''namespaces'', ns]) @
     [lower (descriptor_kind obj) @ ''s'']"

section \<open>Properties\<close>

lemma namespace_before_less: "namespace_before a b = (a < b)"
  by (cases a; cases b) simp_all

lemma ordered_pair_key: "ordered_pair x y = (object_sort_key x \<le> object_sort_key y)"
  by (auto simp: ordered_pair_def object_sort_key_def namespace_before_less less_eq_prod_def)

subsection \<open>Helper lemmas on collections\<close>

lemma sorted_add: "sorted_wrt ordered_pair (add v xs)"
proof -
  have "sorted (map object_sort_key (add v xs))"
    by (simp add: add_def)
  then show ?thesis
    by (simp add: sorted_map ordered_pair_key [abs_def])
qed

lemma length_add: "length (add v xs) = Suc (length xs)"
  by (simp add: add_def)


lemma mset_add: "mset (add v xs) = mset xs + {#v#}"
  by (simp add: add_def)

lemma item_by_name_loop_none:
  "\<forall>x \<in> set xs. name (metadata x) \<noteq> Some n \<Longrightarrow> item_by_name_loop xs n = Inl NotFoundError"
  by (induction xs) simp_all

lemma item_by_name_loop_some:
  "\<exists>x \<in> set xs. name (metadata x) = Some n \<Longrightarrow>
     \<exists>obj. item_by_name_loop xs n = Inr obj \<and> obj \<in> set xs \<and> name (metadata obj) = Some n"
proof (induction xs)
  case Nil
  then show ?case by simp
next
  case (Cons x xs)
  show ?case
  proof (cases "name (metadata x) = Some n")
    case True
    then show ?thesis by simp
  next
    case False
    with Cons.prems have "\<exists>x \<in> set xs. name (metadata x) = Some n" by simp
    from Cons.IH [OF this] False show ?thesis by simp blast
  qed
qed

text \<open>The loop returns the first item of the stored order that bears the name.\<close>

lemma item_by_name_loop_split:
  "item_by_name_loop xs n = Inr obj \<Longrightarrow>
     \<exists>pre post. xs = pre @ obj # post \<and> name (metadata obj) = Some n \<and>
        (\<forall>y \<in> set pre. name (metadata y) \<noteq> Some n)"
proof (induction xs)
  case Nil
  then show ?case by simp
next
  case (Cons x xs)
  show ?case
  proof (cases "name (metadata x) = Some n")
    case True
    with Cons.prems have "x = obj" by simp
    with True have "x # xs = [] @ obj # xs \<and> name (metadata obj) = Some n \<and>
        (\<forall>y \<in> set []. name (metadata y) \<noteq> Some n)" by simp
    then show ?thesis by blast
  next
    case False
    with Cons.prems have "item_by_name_loop xs n = Inr obj" by simp
    from Cons.IH [OF this] obtain pre post where h: "xs = pre @ obj # post"
      "name (metadata obj) = Some n" "\<forall>y \<in> set pre. name (metadata y) \<noteq> Some n" by blast
    with False have "x # xs = (x # pre) @ obj # post \<and> name (metadata obj) = Some n \<and>
        (\<forall>y \<in> set (x # pre). name (metadata y) \<noteq> Some n)" by simp
    then show ?thesis by blast
  qed
qed


subsection \<open>Adding to a collection\<close>

text \<open>
  Claim C2, as stated: for every collection \<open>C\<close> and members \<open>a\<close>, \<open>b\<close> with distinct names,
  \<open>C.add(a).add(b)\<close> contains exactly 2 items, and after every add the member sequence is
  sorted by namespace (no namespace least), then name. The count is wrong for a collection
  that already has members: \<^verbatim>\<open>add\<close> appends to what is there. A collection holding the
  namespace \<open>c\<close> holds three items after the namespaces \<open>a\<close> and \<open>b\<close> are added.
\<close>

theorem add_add_size_counterexample:
  "name (metadata (Namespace_named ''a'')) \<noteq> name (metadata (Namespace_named ''b'')) \<and>
   length (items (List_add (List_add \<lparr>items = [Namespace_named ''c'']\<rparr>
      (Namespace_named ''a'')) (Namespace_named ''b''))) = 3"
  by (simp add: Namespace_named_def ObjectMeta_empty_def List_add_def add_def)

text \<open>
  Claim C2, amended: for every collection \<open>C\<close> and members \<open>a\<close>, \<open>b\<close> with distinct names,
  \<open>C.add(a).add(b)\<close> contains the items of \<open>C\<close> and two more, \<open>a\<close> and \<open>b\<close>, each as often as
  it was there or was added (exactly 2 items when \<open>C\<close> is empty), and after each of the two
  adds the member sequence is sorted by the order of the design document: namespace
  ascending with no namespace least, then name ascending.
\<close>

theorem add_add_size_sorted:
  "name (metadata a) \<noteq> name (metadata b) \<Longrightarrow>
     mset (items (List_add C a)) = mset (items C) + {#a#} \<and>
     mset (items (List_add (List_add C a) b)) = mset (items C) + {#a, b#} \<and>
     length (items (List_add (List_add C a) b)) = length (items C) + 2 \<and>
     (items C = [] \<longrightarrow> length (items (List_add (List_add C a) b)) = 2) \<and>
     sorted_wrt ordered_pair (items (List_add C a)) \<and>
     sorted_wrt ordered_pair (items (List_add (List_add C a) b))"
  by (simp add: List_add_def length_add sorted_add mset_add)

theorem add_add_size_sorted_witness:
  "name (metadata (Namespace_named ''b'')) \<noteq> name (metadata (Namespace_named ''a'')) \<and>
   mset (items (List_add (List_add \<lparr>items = [Namespace_named ''c'']\<rparr> (Namespace_named ''b''))
      (Namespace_named ''a''))) =
     {#Namespace_named ''c'', Namespace_named ''b'', Namespace_named ''a''#} \<and>
   length (items (List_add (List_add \<lparr>items = [Namespace_named ''c'']\<rparr> (Namespace_named ''b''))
      (Namespace_named ''a''))) = 3 \<and>
   sorted_wrt ordered_pair
     (items (List_add (List_add \<lparr>items = [Namespace_named ''c'']\<rparr> (Namespace_named ''b''))
        (Namespace_named ''a''))) \<and>
   items (List_add (List_add \<lparr>items = [Namespace_named ''c'']\<rparr> (Namespace_named ''b''))
      (Namespace_named ''a'')) =
     [Namespace_named ''a'', Namespace_named ''b'', Namespace_named ''c''] \<and>
   length (items (List_add (List_add \<lparr>items = []\<rparr> (Namespace_named ''b''))
      (Namespace_named ''a''))) = 2"
proof -
  have h: "name (metadata (Namespace_named ''b'')) \<noteq> name (metadata (Namespace_named ''a''))"
    by (simp add: Namespace_named_def ObjectMeta_empty_def)
  have e: "items (List_add (List_add \<lparr>items = [Namespace_named ''c'']\<rparr> (Namespace_named ''b''))
      (Namespace_named ''a'')) =
     [Namespace_named ''a'', Namespace_named ''b'', Namespace_named ''c'']"
    by (simp add: Namespace_named_def ObjectMeta_empty_def List_add_def add_def
        object_sort_key_def)
  show ?thesis
    using h e add_add_size_sorted [OF h, of "\<lparr>items = [Namespace_named ''c'']\<rparr>"]
      add_add_size_sorted [OF h, of "\<lparr>items = []\<rparr>"]
    by simp
qed

subsection \<open>Looking an item up by name\<close>

text \<open>
  Claim C5: for every collection \<open>C\<close> and name \<open>n\<close>, if no member of \<open>C\<close> has the metadata
  name \<open>n\<close> then \<open>C.item_by_name(n)\<close> fails with NotFoundError; otherwise it returns a member
  of \<open>C\<close> whose metadata name is \<open>n\<close>.
\<close>

theorem item_by_name_result:
  "((\<forall>x \<in> set (items C). name (metadata x) \<noteq> Some n) \<longrightarrow>
      item_by_name C n = Inl NotFoundError) \<and>
   ((\<exists>x \<in> set (items C). name (metadata x) = Some n) \<longrightarrow>
      (\<exists>obj. item_by_name C n = Inr obj \<and> obj \<in> set (items C) \<and> name (metadata obj) = Some n))"
  using item_by_name_loop_none [of "items C" n] item_by_name_loop_some [of "items C" n]
  by (simp add: item_by_name_def)

theorem item_by_name_result_witness:
  "item_by_name \<lparr>items = [Namespace_named ''a'']\<rparr> ''b'' = Inl NotFoundError \<and>
   (\<exists>obj. item_by_name \<lparr>items = [Namespace_named ''a'']\<rparr> ''a'' = Inr obj \<and>
      obj \<in> set [Namespace_named ''a''] \<and> name (metadata obj) = Some ''a'')"
  using item_by_name_result [of "\<lparr>items = [Namespace_named ''a'']\<rparr>" "''b''"]
    item_by_name_result [of "\<lparr>items = [Namespace_named ''a'']\<rparr>" "''a''"]
  by (simp add: Namespace_named_def ObjectMeta_empty_def)

subsection \<open>Replacing a member\<close>

text \<open>
  Claim C4: for every collection \<open>C\<close> and values \<open>old\<close>, \<open>new\<close>, if \<open>old\<close> is not a current
  member of \<open>C\<close> then \<open>C.replace(old, new)\<close> fails with NotFoundError, the error of the
  removal, and no collection is produced.
\<close>

theorem replace_missing:
  "old \<notin> set (items C) \<Longrightarrow>
     List_replace C old new = Inl NotFoundError \<and> (\<forall>C'. List_replace C old new \<noteq> Inr C')"
  by (simp add: List_replace_def remove_def)

theorem replace_missing_witness:
  "Namespace_named ''b'' \<notin> set (items \<lparr>items = [Namespace_named ''a'']\<rparr>) \<and>
   List_replace \<lparr>items = [Namespace_named ''a'']\<rparr> (Namespace_named ''b'') (Namespace_named ''c'')
     = Inl NotFoundError"
proof -
  have h: "Namespace_named ''b'' \<notin> set (items \<lparr>items = [Namespace_named ''a'']\<rparr>)"
    by (simp add: Namespace_named_def ObjectMeta_empty_def)
  show ?thesis
    using h replace_missing [OF h, of "Namespace_named ''c''"] by simp
qed





subsection \<open>Two members of one name\<close>

lemma ordered_pair_namespace:
  "ordered_pair x y \<Longrightarrow> namespace (metadata x) \<le> namespace (metadata y)"
  by (auto simp: ordered_pair_def namespace_before_less)

text \<open>
  Claim C9: \<open>item_by_name\<close> matches members by name only, ignoring the namespace, and
  returns the first match of the stored order. In a collection whose items are in the
  sorted order (as every \<open>add\<close> and \<open>replace\<close> leaves them) and that holds two members \<open>a\<close>,
  \<open>b\<close> of one name \<open>n\<close> in different namespaces, that of \<open>a\<close> before that of \<open>b\<close>, the lookup
  of \<open>n\<close> returns a member named \<open>n\<close> whose namespace is least among the members named \<open>n\<close>
  (it is \<open>a\<close> when \<open>a\<close> and \<open>b\<close> are the only two), and no lookup by name returns \<open>b\<close>.
\<close>

theorem item_by_name_least_namespace:
  assumes "sorted_wrt ordered_pair (items C)"
    and "a \<in> set (items C)" and "b \<in> set (items C)"
    and "name (metadata a) = Some n" and "name (metadata b) = Some n"
    and "namespace (metadata a) < namespace (metadata b)"
  shows "\<exists>x. item_by_name C n = Inr x \<and> name (metadata x) = Some n \<and>
           (\<exists>pre post. items C = pre @ x # post \<and>
              (\<forall>y \<in> set pre. name (metadata y) \<noteq> Some n)) \<and>
           (\<forall>y \<in> set (items C). name (metadata y) = Some n \<longrightarrow>
              namespace (metadata x) \<le> namespace (metadata y)) \<and>
           ((\<forall>y \<in> set (items C). name (metadata y) = Some n \<longrightarrow> y = a \<or> y = b) \<longrightarrow> x = a) \<and>
           (\<forall>m. item_by_name C m \<noteq> Inr b)"
proof -
  from assms(2,4) have "\<exists>x \<in> set (items C). name (metadata x) = Some n" by blast
  from item_by_name_loop_some [OF this] obtain x
    where x: "item_by_name_loop (items C) n = Inr x" "x \<in> set (items C)"
      "name (metadata x) = Some n" by blast
  from item_by_name_loop_split [OF x(1)] obtain pre post
    where s: "items C = pre @ x # post" "\<forall>y \<in> set pre. name (metadata y) \<noteq> Some n" by blast
  from assms(1) s(1) have post: "\<forall>y \<in> set post. ordered_pair x y"
    by (simp add: sorted_wrt_append)
  have least: "namespace (metadata x) \<le> namespace (metadata y)"
    if "y \<in> set (items C)" "name (metadata y) = Some n" for y
  proof -
    from that s have "y = x \<or> y \<in> set post" by auto
    then show ?thesis
    proof
      assume "y = x"
      then show ?thesis by simp
    next
      assume "y \<in> set post"
      with post have "ordered_pair x y" by blast
      then show ?thesis by (rule ordered_pair_namespace)
    qed
  qed
  from least [OF assms(2,4)] assms(6) have xb: "x \<noteq> b" by auto
  have only: "x = a" if "\<forall>y \<in> set (items C). name (metadata y) = Some n \<longrightarrow> y = a \<or> y = b"
    using that x(2,3) xb by blast
  have never: "item_by_name C m \<noteq> Inr b" for m
  proof
    assume h: "item_by_name C m = Inr b"
    then have hl: "item_by_name_loop (items C) m = Inr b" by (simp add: item_by_name_def)
    from item_by_name_loop_split [OF hl] have "name (metadata b) = Some m" by blast
    with assms(5) have "m = n" by simp
    with hl x(1) xb show False by simp
  qed
  have "item_by_name C n = Inr x" using x(1) by (simp add: item_by_name_def)
  with x(3) s least only never show ?thesis by blast
qed

theorem item_by_name_least_namespace_witness:
  "item_by_name
     (List_add (List_add \<lparr>items = []\<rparr> (ConfigMap_named ''b'' ''n'')) (ConfigMap_named ''a'' ''n''))
     ''n'' = Inr (ConfigMap_named ''a'' ''n'') \<and>
   item_by_name
     (List_add (List_add \<lparr>items = []\<rparr> (ConfigMap_named ''b'' ''n'')) (ConfigMap_named ''a'' ''n''))
     ''n'' \<noteq> Inr (ConfigMap_named ''b'' ''n'')"
proof -
  let ?C = "List_add (List_add \<lparr>items = []\<rparr> (ConfigMap_named ''b'' ''n''))
              (ConfigMap_named ''a'' ''n'')"
  have i: "items ?C = [ConfigMap_named ''a'' ''n'', ConfigMap_named ''b'' ''n'']"
    by (simp add: List_add_def add_def object_sort_key_def ConfigMap_named_def
        ObjectMeta_empty_def)
  have "\<exists>x. item_by_name ?C ''n'' = Inr x \<and> name (metadata x) = Some ''n'' \<and>
           (\<exists>pre post. items ?C = pre @ x # post \<and>
              (\<forall>y \<in> set pre. name (metadata y) \<noteq> Some ''n'')) \<and>
           (\<forall>y \<in> set (items ?C). name (metadata y) = Some ''n'' \<longrightarrow>
              namespace (metadata x) \<le> namespace (metadata y)) \<and>
           ((\<forall>y \<in> set (items ?C). name (metadata y) = Some ''n'' \<longrightarrow>
                y = ConfigMap_named ''a'' ''n'' \<or> y = ConfigMap_named ''b'' ''n'') \<longrightarrow>
              x = ConfigMap_named ''a'' ''n'') \<and>
           (\<forall>m. item_by_name ?C m \<noteq> Inr (ConfigMap_named ''b'' ''n''))"
  proof (rule item_by_name_least_namespace)
    show "sorted_wrt ordered_pair (items ?C)"
      by (simp add: List_add_def sorted_add)
    show "ConfigMap_named ''a'' ''n'' \<in> set (items ?C)" by (simp add: i)
    show "ConfigMap_named ''b'' ''n'' \<in> set (items ?C)" by (simp add: i)
    show "name (metadata (ConfigMap_named ''a'' ''n'')) = Some ''n''"
      by (simp add: ConfigMap_named_def)
    show "name (metadata (ConfigMap_named ''b'' ''n'')) = Some ''n''"
      by (simp add: ConfigMap_named_def)
    show "namespace (metadata (ConfigMap_named ''a'' ''n''))
            < namespace (metadata (ConfigMap_named ''b'' ''n''))"
      by (simp add: ConfigMap_named_def)
  qed
  then obtain x where x: "item_by_name ?C ''n'' = Inr x"
    "(\<forall>y \<in> set (items ?C). name (metadata y) = Some ''n'' \<longrightarrow>
        y = ConfigMap_named ''a'' ''n'' \<or> y = ConfigMap_named ''b'' ''n'') \<longrightarrow>
      x = ConfigMap_named ''a'' ''n''"
    "\<forall>m. item_by_name ?C m \<noteq> Inr (ConfigMap_named ''b'' ''n'')" by blast
  from x(2) have "x = ConfigMap_named ''a'' ''n''" by (simp add: i)
  with x(1,3) show ?thesis by (simp add: ConfigMap_named_def ObjectMeta_empty_def)
qed


subsection \<open>Helper lemmas on \<^verbatim>\<open>uuid4\<close> and its printed form\<close>

lemma bit_variant_mask: "bit (push_bit 48 (0xc000 :: u128)) n \<longleftrightarrow> n = 62 \<or> n = 63"
proof -
  have "push_bit 48 (0xc000 :: u128) = push_bit 62 (mask 2)"
    by (simp add: mask_eq_exp_minus_1)
  moreover have "bit (push_bit 62 (mask 2 :: u128)) n \<longleftrightarrow> n = 62 \<or> n = 63"
    by (simp only: bit_push_bit_iff bit_mask_iff possible_bit_word) (simp, arith)
  ultimately show ?thesis by (simp only:)
qed

lemma bit_variant_stamp: "bit (push_bit 48 (0x8000 :: u128)) n \<longleftrightarrow> n = 63"
proof -
  have "push_bit 48 (0x8000 :: u128) = 2 ^ 63"
    by simp
  moreover have "bit (2 ^ 63 :: u128) n \<longleftrightarrow> n = 63"
    by (simp only: bit_exp_iff possible_bit_word) (simp, arith)
  ultimately show ?thesis by (simp only:)
qed

lemma bit_version_mask:
  "bit (push_bit 64 (0xf000 :: u128)) n \<longleftrightarrow> n = 76 \<or> n = 77 \<or> n = 78 \<or> n = 79"
proof -
  have "push_bit 64 (0xf000 :: u128) = push_bit 76 (mask 4)"
    by (simp add: mask_eq_exp_minus_1)
  moreover have "bit (push_bit 76 (mask 4 :: u128)) n \<longleftrightarrow> n = 76 \<or> n = 77 \<or> n = 78 \<or> n = 79"
    by (simp only: bit_push_bit_iff bit_mask_iff possible_bit_word) (simp, arith)
  ultimately show ?thesis by (simp only:)
qed

lemma bit_version_stamp: "bit (push_bit 76 (4 :: u128)) n \<longleftrightarrow> n = 78"
proof -
  have "push_bit 76 (4 :: u128) = 2 ^ 78"
    by simp
  moreover have "bit (2 ^ 78 :: u128) n \<longleftrightarrow> n = 78"
    by (simp only: bit_exp_iff possible_bit_word) (simp, arith)
  ultimately show ?thesis by (simp only:)
qed

lemma bit_uuid4:
  "bit (uuid4 r) n \<longleftrightarrow> n = 63 \<or> n = 78 \<or> (bit r n \<and> n \<notin> {62, 63, 76, 77, 78, 79})"
proof -
  have "bit (uuid4 r) n \<longleftrightarrow>
      (((bit r n \<and> \<not> (n = 62 \<or> n = 63)) \<or> n = 63) \<and> \<not> (n = 76 \<or> n = 77 \<or> n = 78 \<or> n = 79)) \<or> n = 78"
    unfolding uuid4_def
    by (simp only: bit_or_iff bit_and_iff bit_not_iff bit_variant_mask bit_variant_stamp
        bit_version_mask bit_version_stamp possible_bit_word)
      (use bit_imp_le_length [of r n] in auto)
  then show ?thesis by auto
qed

lemma bit_random_bits:
  "bit (random_bits r) n \<longleftrightarrow> bit r n \<and> n \<notin> {62, 63, 76, 77, 78, 79}"
  unfolding random_bits_def
  by (simp only: bit_and_iff bit_not_iff bit_variant_mask bit_version_mask possible_bit_word)
    (use bit_imp_le_length [of r n] in auto)

lemma uuid4_eq_iff: "uuid4 r1 = uuid4 r2 \<longleftrightarrow> random_bits r1 = random_bits r2"
proof
  assume e: "uuid4 r1 = uuid4 r2"
  show "random_bits r1 = random_bits r2"
  proof (rule bit_eqI)
    fix n
    from e have "bit (uuid4 r1) n = bit (uuid4 r2) n" by simp
    then show "bit (random_bits r1) n = bit (random_bits r2) n"
      by (auto simp: bit_uuid4 bit_random_bits)
  qed
next
  assume e: "random_bits r1 = random_bits r2"
  show "uuid4 r1 = uuid4 r2"
  proof (rule bit_eqI)
    fix n
    from e have "bit (random_bits r1) n = bit (random_bits r2) n" by simp
    then show "bit (uuid4 r1) n = bit (uuid4 r2) n"
      by (auto simp: bit_uuid4 bit_random_bits)
  qed
qed

lemma length_hex32: "length (hex32 w) = 32"
  by (simp add: hex32_def)

lemma length_str_UUID: "length (str_UUID w) = 36"
  by (simp add: str_UUID_def Let_def length_hex32)

lemma hex32_nth: "i < 32 \<Longrightarrow> hex32 w ! i = hexdigit (nibble w (31 - i))"
  by (simp add: hex32_def)

lemma str_UUID_14: "str_UUID w ! 14 = hexdigit (nibble w 19)"
  by (simp add: str_UUID_def Let_def nth_append length_hex32 hex32_nth)

lemma str_UUID_19: "str_UUID w ! 19 = hexdigit (nibble w 15)"
  by (simp add: str_UUID_def Let_def nth_append length_hex32 hex32_nth)

lemma bit_uuid4_stamped:
  "bit (uuid4 r) 78" "\<not> bit (uuid4 r) 76" "\<not> bit (uuid4 r) 77" "\<not> bit (uuid4 r) 79"
  "bit (uuid4 r) 63" "\<not> bit (uuid4 r) 62"
  by (simp_all add: bit_uuid4)

lemma nibble_less: "nibble w i < 16"
proof -
  have "drop_bit (4 * i) w AND 15 = take_bit 4 (drop_bit (4 * i) w)"
    by (simp add: take_bit_eq_mask mask_eq_exp_minus_1)
  then have "nibble w i = take_bit 4 (unat (drop_bit (4 * i) w))"
    by (simp add: nibble_def unsigned_take_bit_eq)
  also have "\<dots> < 2 ^ 4" by (rule take_bit_nat_less_exp)
  finally show ?thesis by simp
qed

lemma hexdigit_inj: "d < 16 \<Longrightarrow> e < 16 \<Longrightarrow> hexdigit d = hexdigit e \<Longrightarrow> d = e"
proof -
  assume a: "d < 16" "e < 16" "hexdigit d = hexdigit e"
  have "distinct ''0123456789abcdef''" by simp
  moreover have "length ''0123456789abcdef'' = 16" by simp
  ultimately show ?thesis using a
    by (simp add: hexdigit_def nth_eq_iff_index_eq del: distinct.simps)
qed

lemma bit_nibble:
  "k < 4 \<Longrightarrow> bit (nibble w i) k = bit w (4 * i + k)"
proof -
  assume k: "k < 4"
  have "bit (mask 4 :: u128) k" using k by (simp add: bit_mask_iff)
  then have m: "bit (15 :: u128) k" by (simp add: mask_eq_exp_minus_1)
  have "bit (nibble w i) k = bit (drop_bit (4 * i) w AND 15) k"
    by (simp add: nibble_def bit_unsigned_iff)
  also have "\<dots> = (bit w (4 * i + k) \<and> bit (15 :: u128) k)"
    by (simp add: bit_and_iff bit_drop_bit_eq)
  finally show ?thesis using m by simp
qed

lemma nibbles_eq:
  assumes "\<forall>i < 32. nibble w1 i = nibble w2 i"
  shows "w1 = w2"
proof (rule bit_word_eqI)
  fix n assume "n < LENGTH(128)"
  then have n: "n div 4 < 32" "n mod 4 < 4" by simp_all
  have "bit w1 n = bit (nibble w1 (n div 4)) (n mod 4)"
    using n(2) by (simp add: bit_nibble)
  also have "\<dots> = bit (nibble w2 (n div 4)) (n mod 4)"
    using assms n(1) by simp
  also have "\<dots> = bit w2 n"
    using n(2) by (simp add: bit_nibble)
  finally show "bit w1 n = bit w2 n" .
qed

lemma version_digit:
  "(n::nat) < 16 \<Longrightarrow> \<not> bit n 3 \<Longrightarrow> bit n 2 \<Longrightarrow> \<not> bit n 1 \<Longrightarrow> \<not> bit n 0 \<Longrightarrow> n = 4"
proof -
  assume a: "n < 16" "\<not> bit n 3" "bit n 2" "\<not> bit n 1" "\<not> bit n 0"
  from a(2-5) have "even (n div 8)" "odd (n div 4)" "even (n div 2)" "even n"
    by (simp_all add: bit_iff_odd)
  with a(1) show ?thesis by presburger
qed

lemma variant_digit:
  "(n::nat) < 16 \<Longrightarrow> bit n 3 \<Longrightarrow> \<not> bit n 2 \<Longrightarrow> 8 \<le> n \<and> n < 12"
proof -
  assume a: "n < 16" "bit n 3" "\<not> bit n 2"
  from a(2,3) have "odd (n div 8)" "even (n div 4)"
    by (simp_all add: bit_iff_odd)
  with a(1) show ?thesis by presburger
qed

lemma nibble_version: "nibble (uuid4 r) 19 = 4"
proof (rule version_digit [OF nibble_less])
  show "\<not> bit (nibble (uuid4 r) 19) 3" "bit (nibble (uuid4 r) 19) 2"
    "\<not> bit (nibble (uuid4 r) 19) 1" "\<not> bit (nibble (uuid4 r) 19) 0"
    using bit_uuid4_stamped [of r] by (simp_all add: bit_nibble)
qed

lemma nibble_variant: "nibble (uuid4 r) 15 \<in> {8, 9, 10, 11}"
proof -
  have "bit (nibble (uuid4 r) 15) 3" "\<not> bit (nibble (uuid4 r) 15) 2"
    using bit_uuid4_stamped [of r] by (simp_all add: bit_nibble)
  with nibble_less have "8 \<le> nibble (uuid4 r) 15 \<and> nibble (uuid4 r) 15 < 12"
    by (rule variant_digit)
  then show ?thesis by auto
qed

lemma hexdigit_values: "hexdigit 4 = CHR ''4''" "hexdigit 8 = CHR ''8''" "hexdigit 9 = CHR ''9''"
  "hexdigit 10 = CHR ''a''" "hexdigit 11 = CHR ''b''"
  by (simp_all add: hexdigit_def)

lemma set_groups:
  "c \<in> set (take 8 h @ ''-'' @ take 4 (drop 8 h) @ ''-'' @ take 4 (drop 12 h) @ ''-'' @
      take 4 (drop 16 h) @ ''-'' @ drop 20 h) \<Longrightarrow> c = CHR ''-'' \<or> c \<in> set h"
proof -
  have t: "set (take n (drop m h)) \<subseteq> set h" for n m
    using set_take_subset [of n "drop m h"] set_drop_subset [of m h] by (rule order_trans)
  assume "c \<in> set (take 8 h @ ''-'' @ take 4 (drop 8 h) @ ''-'' @ take 4 (drop 12 h) @ ''-'' @
      take 4 (drop 16 h) @ ''-'' @ drop 20 h)"
  then have "c \<in> set (take 8 h) \<or> c = CHR ''-'' \<or> c \<in> set (take 4 (drop 8 h)) \<or>
     c \<in> set (take 4 (drop 12 h)) \<or> c \<in> set (take 4 (drop 16 h)) \<or> c \<in> set (drop 20 h)"
    by (simp only: set_append Un_iff set_simps insert_iff empty_iff) blast
  then show ?thesis
    using t [of 4 8] t [of 4 12] t [of 4 16] set_take_subset [of 8 h] set_drop_subset [of 20 h]
    by blast
qed

lemma str_UUID_hyphens:
  "str_UUID w ! 8 = CHR ''-''" "str_UUID w ! 13 = CHR ''-''" "str_UUID w ! 18 = CHR ''-''"
  "str_UUID w ! 23 = CHR ''-''"
  by (simp_all add: str_UUID_def Let_def nth_append length_hex32)

lemma groups_join:
  "take 8 h @ take 4 (drop 8 h) @ take 4 (drop 12 h) @ take 4 (drop 16 h) @ drop 20 h = h"
proof -
  have a: "take 4 (drop 16 h) @ drop 20 h = drop 16 h"
    using append_take_drop_id [of 4 "drop 16 h"] by simp
  have b: "take 4 (drop 12 h) @ drop 16 h = drop 12 h"
    using append_take_drop_id [of 4 "drop 12 h"] by simp
  have c: "take 4 (drop 8 h) @ drop 12 h = drop 8 h"
    using append_take_drop_id [of 4 "drop 8 h"] by simp
  show ?thesis by (simp add: a b c)
qed

lemma str_UUID_hex32: "str_UUID w1 = str_UUID w2 \<Longrightarrow> hex32 w1 = hex32 w2"
proof -
  assume "str_UUID w1 = str_UUID w2"
  then have "take 8 (hex32 w1) = take 8 (hex32 w2) \<and>
      take 4 (drop 8 (hex32 w1)) = take 4 (drop 8 (hex32 w2)) \<and>
      take 4 (drop 12 (hex32 w1)) = take 4 (drop 12 (hex32 w2)) \<and>
      take 4 (drop 16 (hex32 w1)) = take 4 (drop 16 (hex32 w2)) \<and>
      drop 20 (hex32 w1) = drop 20 (hex32 w2)"
    by (simp add: str_UUID_def Let_def length_hex32)
  then have "take 8 (hex32 w1) @ take 4 (drop 8 (hex32 w1)) @ take 4 (drop 12 (hex32 w1)) @
      take 4 (drop 16 (hex32 w1)) @ drop 20 (hex32 w1) =
    take 8 (hex32 w2) @ take 4 (drop 8 (hex32 w2)) @ take 4 (drop 12 (hex32 w2)) @
      take 4 (drop 16 (hex32 w2)) @ drop 20 (hex32 w2)"
    by simp
  then show ?thesis by (simp only: groups_join)
qed

lemma str_UUID_inj: "str_UUID w1 = str_UUID w2 \<Longrightarrow> w1 = w2"
proof (rule nibbles_eq, intro allI impI)
  fix j :: nat
  assume eq: "str_UUID w1 = str_UUID w2" and j: "j < 32"
  from str_UUID_hex32 [OF eq] have "hex32 w1 ! (31 - j) = hex32 w2 ! (31 - j)"
    by simp
  with j have "hexdigit (nibble w1 j) = hexdigit (nibble w2 j)"
    by (simp add: hex32_nth)
  then show "nibble w1 j = nibble w2 j"
    by (rule hexdigit_inj [OF nibble_less nibble_less])
qed

lemma hexdigit_in: "d < 16 \<Longrightarrow> hexdigit d \<in> set ''0123456789abcdef''"
  unfolding hexdigit_def by (rule nth_mem) simp

lemma set_hex32: "c \<in> set (hex32 w) \<Longrightarrow> c \<in> set ''0123456789abcdef''"
proof -
  assume "c \<in> set (hex32 w)"
  then have "c \<in> (\<lambda>i. hexdigit (nibble w (31 - i))) ` set [0..<32]"
    by (simp only: hex32_def set_map)
  then obtain i where "c = hexdigit (nibble w (31 - i))"
    by (rule imageE)
  then show ?thesis
    using hexdigit_in [OF nibble_less] by blast
qed

lemma set_str_UUID: "set (str_UUID w) \<subseteq> set ''0123456789abcdef-''"
proof
  fix c assume "c \<in> set (str_UUID w)"
  then have "c = CHR ''-'' \<or> c \<in> set (hex32 w)"
    unfolding str_UUID_def Let_def by (rule set_groups)
  then show "c \<in> set ''0123456789abcdef-''"
  proof
    assume "c = CHR ''-''"
    then show ?thesis by simp
  next
    assume "c \<in> set (hex32 w)"
    then have "c \<in> set ''0123456789abcdef''" by (rule set_hex32)
    then have "c \<in> set (''0123456789abcdef'' @ ''-'')" by (simp only: set_append Un_iff) simp
    then show ?thesis by simp
  qed
qed

subsection \<open>Default filling\<close>

text \<open>
  Claim C8, as stated: for every named Namespace value, \<open>fill_defaults()\<close> returns a value
  whose metadata identifier (uid) is a non-empty generated version-4 UUID string and whose
  status is the "Active" status value; applied to two distinct named namespaces it yields
  two different identifiers. The identifier is made from the random draw alone, and
  nothing compares it with the identifiers given before: when \<^verbatim>\<open>uuid4()\<close> draws the same
  bytes for the namespaces \<open>a\<close> and \<open>b\<close>, the two get the same identifier.
\<close>

theorem fill_defaults_identifier_counterexample:
  "Namespace_named ''a'' \<noteq> Namespace_named ''b'' \<and>
   uid (metadata (fill_defaults 0 (Namespace_named ''a''))) =
   uid (metadata (fill_defaults 0 (Namespace_named ''b'')))"
  by (simp add: fill_defaults_def Namespace_named_def ObjectMeta_empty_def)

text \<open>
  Claim C8, amended: for every named Namespace value, \<open>fill_defaults()\<close> returns a value
  whose metadata identifier (uid) is a non-empty generated version-4 UUID string and whose
  status is the "Active" status value; applied to two named namespaces, distinct or not,
  it yields two different identifiers exactly when the two random draws of \<^verbatim>\<open>uuid4()\<close>
  differ in one of the 122 bits that the version and the variant do not overwrite. The
  identifier is the printed UUID of the draw \<open>r\<close>: 36 characters, hexadecimal digits in the
  groups 8-4-4-4-12 between hyphens, the version digit \<open>4\<close> and a variant digit among
  \<open>8\<close>, \<open>9\<close>, \<open>a\<close>, \<open>b\<close>; stamping and printing lose none of the random bits.
\<close>

theorem fill_defaults_identifier:
  "uid (metadata (fill_defaults r (Namespace_named n))) = Some (str_UUID (uuid4 r)) \<and>
   str_UUID (uuid4 r) \<noteq> [] \<and>
   length (str_UUID (uuid4 r)) = 36 \<and>
   set (str_UUID (uuid4 r)) \<subseteq> set ''0123456789abcdef-'' \<and>
   str_UUID (uuid4 r) ! 8 = CHR ''-'' \<and> str_UUID (uuid4 r) ! 13 = CHR ''-'' \<and>
   str_UUID (uuid4 r) ! 18 = CHR ''-'' \<and> str_UUID (uuid4 r) ! 23 = CHR ''-'' \<and>
   str_UUID (uuid4 r) ! 14 = CHR ''4'' \<and>
   str_UUID (uuid4 r) ! 19 \<in> {CHR ''8'', CHR ''9'', CHR ''a'', CHR ''b''} \<and>
   status (fill_defaults r (Namespace_named n)) = Some NamespaceStatus_active \<and>
   phase NamespaceStatus_active = Some ''Active'' \<and>
   ((uid (metadata (fill_defaults r1 (Namespace_named n1))) =
     uid (metadata (fill_defaults r2 (Namespace_named n2)))) =
    (random_bits r1 = random_bits r2))"
proof -
  have len: "length (str_UUID (uuid4 r)) = 36"
    by (rule length_str_UUID)
  then have ne: "str_UUID (uuid4 r) \<noteq> []"
    by auto
  have version: "str_UUID (uuid4 r) ! 14 = CHR ''4''"
    by (simp add: str_UUID_14 nibble_version hexdigit_values)
  have "hexdigit (nibble (uuid4 r) 15) \<in> {CHR ''8'', CHR ''9'', CHR ''a'', CHR ''b''}"
    using nibble_variant [of r] by (auto simp: hexdigit_values)
  then have variant: "str_UUID (uuid4 r) ! 19 \<in> {CHR ''8'', CHR ''9'', CHR ''a'', CHR ''b''}"
    by (simp only: str_UUID_19)
  have "(uid (metadata (fill_defaults r1 (Namespace_named n1))) =
     uid (metadata (fill_defaults r2 (Namespace_named n2)))) = (uuid4 r1 = uuid4 r2)"
    using str_UUID_inj [of "uuid4 r1" "uuid4 r2"] by (auto simp: fill_defaults_def)
  then have distinct: "(uid (metadata (fill_defaults r1 (Namespace_named n1))) =
     uid (metadata (fill_defaults r2 (Namespace_named n2)))) =
    (random_bits r1 = random_bits r2)"
    by (simp only: uuid4_eq_iff)
  have fields: "uid (metadata (fill_defaults r (Namespace_named n))) = Some (str_UUID (uuid4 r))"
    "status (fill_defaults r (Namespace_named n)) = Some NamespaceStatus_active"
    "phase NamespaceStatus_active = Some ''Active''"
    by (simp_all add: fill_defaults_def NamespaceStatus_active_def)
  from fields ne len set_str_UUID [of "uuid4 r"] str_UUID_hyphens [of "uuid4 r"] version variant
    distinct
  show ?thesis by blast
qed

text \<open>
  Claim C10: \<open>Namespace.fill_defaults()\<close> overwrites the metadata uid and the status
  whatever the input holds: the result carries the freshly generated uid and the Active
  status also when the input already has a uid or a status (the result does not depend on
  either), and every field other than \<open>metadata.uid\<close> and \<open>status\<close> is that of the input
  (putting the input's uid and status back gives the input).
\<close>

theorem fill_defaults_overwrites:
  "uid (metadata (fill_defaults r self)) = Some (str_UUID (uuid4 r)) \<and>
   status (fill_defaults r self) = Some NamespaceStatus_active \<and>
   fill_defaults r (self\<lparr>metadata := (metadata self)\<lparr>uid := u\<rparr>, status := s\<rparr>) =
     fill_defaults r self \<and>
   name (metadata (fill_defaults r self)) = name (metadata self) \<and>
   namespace (metadata (fill_defaults r self)) = namespace (metadata self) \<and>
   resourceVersion (metadata (fill_defaults r self)) = resourceVersion (metadata self) \<and>
   (fill_defaults r self)\<lparr>metadata := (metadata (fill_defaults r self))\<lparr>uid := uid (metadata self)\<rparr>,
      status := status self\<rparr> = self"
  by (simp add: fill_defaults_def)

subsection \<open>Collection paths\<close>

text \<open>
  Claim C7: \<open>collection_location\<close> on a v1 kind "Pod" with namespace "ns" returns the
  segments ("api", "v1", "namespaces", "ns", "pods"); on the bare v1 type, with no
  namespace, it returns ("api", "v1", "pods"); on a kind under apiVersion "v1beta1" (group
  "extensions") with no namespace it returns ("apis", "extensions", "v1beta1", the
  lower-cased kind with "s" appended), which is "mythicals" for the kind "Mythical" of the
  tests.
\<close>

theorem collection_location_paths:
  "collection_location group_of (Instance ''v1'' ''Pod'' (m\<lparr>namespace := Some ''ns''\<rparr>)) =
     [''api'', ''v1'', ''namespaces'', ''ns'', ''pods''] \<and>
   collection_location group_of (BareType ''v1'' ''Pod'') = [''api'', ''v1'', ''pods''] \<and>
   collection_location (\<lambda>v. ''extensions'') (BareType ''v1beta1'' k) =
     [''apis'', ''extensions'', ''v1beta1'', lower k @ ''s''] \<and>
   collection_location (\<lambda>v. ''extensions'') (Instance ''v1beta1'' k (m\<lparr>namespace := None\<rparr>)) =
     [''apis'', ''extensions'', ''v1beta1'', lower k @ ''s''] \<and>
   lower ''Mythical'' @ ''s'' = ''mythicals''"
proof -
  have "lower ''Pod'' = ''pod''" and "lower ''Mythical'' = ''mythical''"
    by code_simp+
  then show ?thesis
    by (simp add: collection_location_def)
qed


subsection \<open>Helper lemmas on the raw codec\<close>

lemma create_serialize_str: "create_str (Some (serialize_str x)) = Inr x"
  by (cases x) simp_all

lemma ObjectMeta_roundtrip: "ObjectMeta_create (ObjectMeta_serialize m) = Inr m"
  by (simp add: ObjectMeta_create_def ObjectMeta_serialize_def create_serialize_str err_bind_def)

lemma NamespaceStatus_roundtrip: "NamespaceStatus_create (NamespaceStatus_serialize s) = Inr s"
  by (simp add: NamespaceStatus_create_def NamespaceStatus_serialize_def create_serialize_str
      err_bind_def)

lemma status_roundtrip: "create_status (Some (serialize_status s)) = Inr s"
  by (cases s) (simp_all add: NamespaceStatus_roundtrip err_bind_def)

lemma Namespace_roundtrip: "Namespace_create (Namespace_serialize x) = Inr x"
  by (simp add: Namespace_create_def Namespace_serialize_def ObjectMeta_roundtrip
      status_roundtrip err_bind_def)

lemma the_RStr_RStr: "fmmap the_RStr (fmmap RStr d) = d"
proof -
  have "the_RStr \<circ> RStr = id"
    by (rule ext) (simp add: the_RStr_def)
  then show ?thesis
    by (simp add: fmap.map_comp fmap.map_id)
qed

lemma is_RStr_all: "fmpred (\<lambda>k v. is_RStr (RStr v)) d"
  by (simp add: is_RStr_def fmpred_iff)

lemma data_roundtrip: "create_data (Some (serialize_data d)) = Inr d"
  by (cases d) (simp_all add: the_RStr_RStr is_RStr_all)

lemma ConfigMap_roundtrip: "ConfigMap_create (ConfigMap_serialize x) = Inr x"
  by (simp add: ConfigMap_create_def ConfigMap_serialize_def ObjectMeta_roundtrip
      data_roundtrip err_bind_def)

lemma items_roundtrip:
  assumes "\<And>x. item_create (item_serialize x) = Inr x"
  shows "err_all (map (create_item item_create) (map (\<lambda>obj. RDict (item_serialize obj)) xs)) = Inr xs"
  by (induction xs) (simp_all add: assms err_bind_def)

lemma List_roundtrip:
  assumes "\<And>x. item_create (item_serialize x) = Inr x"
  shows "List_create item_create (List_serialize item_serialize l) = Inr l"
  using items_roundtrip [of item_create item_serialize "items l", OF assms]
  by (simp add: List_create_def List_serialize_def err_bind_def)

lemma serialize_keys:
  "fmlookup (serialize obj) ''kind'' = None" "fmlookup (serialize obj) ''apiVersion'' = None"
  by (cases obj; simp add: Namespace_serialize_def ConfigMap_serialize_def List_serialize_def
      NamespaceStatus_serialize_def)+

lemma discard_update:
  assumes "fmlookup s ''kind'' = None" and "fmlookup s ''apiVersion'' = None"
  shows "fmdrop ''apiVersion'' (fmdrop ''kind'' (fmupd ''apiVersion'' a (fmupd ''kind'' k s))) = s"
proof (rule fmap_ext)
  fix x
  show "fmlookup (fmdrop ''apiVersion'' (fmdrop ''kind'' (fmupd ''apiVersion'' a (fmupd ''kind'' k s)))) x
      = fmlookup s x"
    using assms by simp
qed

lemma v1_create_serialize:
  "\<exists>cls. v1 schema (kind obj) = Inr (Class cls) \<and> cls (serialize obj) = Inr obj"
  by (cases obj)
    (simp_all add: v1_def Namespace_roundtrip ConfigMap_roundtrip List_roundtrip
      NamespaceStatus_roundtrip err_bind_def)

subsection \<open>The round trip through the raw form\<close>

text \<open>
  Claim C1: for every constructed resource value \<open>v\<close> of a registered kind (Namespace,
  ConfigMap, their lists, and NamespaceStatus), decoding the serialized form yields the
  original value: \<open>iobject_from_raw(iobject_to_raw(v)) == v\<close>, whatever hints are passed and
  whatever else the catalogue holds.
\<close>

theorem from_raw_to_raw:
  "iobject_from_raw (v1 schema) (iobject_to_raw obj) kind_hint version_hint = Inr obj"
proof -
  obtain cls where cls: "v1 schema (kind obj) = Inr (Class cls)" "cls (serialize obj) = Inr obj"
    using v1_create_serialize by blast
  have k: "get (iobject_to_raw obj) ''kind'' kind_hint = RStr (kind obj)"
    by (simp add: get_def iobject_to_raw_def)
  have a: "get (iobject_to_raw obj) ''apiVersion'' version_hint = RStr ''v1''"
    by (simp add: get_def iobject_to_raw_def apiVersion_def)
  have others: "fmdrop ''apiVersion'' (fmdrop ''kind'' (iobject_to_raw obj)) = serialize obj"
    unfolding iobject_to_raw_def by (rule discard_update) (rule serialize_keys)+
  show ?thesis
    by (simp add: iobject_from_raw_def Let_def k a others versions_def cls err_bind_def)
qed

subsection \<open>Unknown kinds\<close>

text \<open>
  Claim C6: for every raw record whose (apiVersion, kind) pair, after the hint fallback, is
  not registered in the catalogue, \<open>iobject_from_raw\<close> fails with UnknownKindError rather
  than returning a value or failing some other way. The docstring promises the same
  ("raise KeyError: If the kind of object is unsupported"), and the version lookup keeps
  it: a record with no \<open>apiVersion\<close>, read with no version hint, fails with that
  \<^verbatim>\<open>KeyError\<close>, for every catalogue. The kind lookup does not: a record of version \<open>v1\<close> with
  no \<open>kind\<close> key, read with no kind hint, reaches \<^verbatim>\<open>getattr(v, None)\<close> and fails with
  \<^verbatim>\<open>TypeError\<close>, for every catalogue; and a kind that names an attribute which is not a
  class passes the lookup and fails at \<^verbatim>\<open>cls.create\<close> with \<^verbatim>\<open>AttributeError\<close>.
\<close>

theorem from_raw_absent_kind:
  "iobject_from_raw v (fmupd ''apiVersion'' (RStr ''v1'') fmempty) RNone RNone = Inl TypeError \<and>
   iobject_from_raw v (fmupd ''apiVersion'' (RStr ''v1'') (fmdrop ''kind'' obj)) RNone version_hint =
     Inl TypeError \<and>
   iobject_from_raw v (fmdrop ''apiVersion'' obj) kind_hint RNone = Inl UnknownKindError \<and>
   iobject_from_raw (\<lambda>a. Inr Other)
     (fmupd ''kind'' (RStr ''__class__'') (fmupd ''apiVersion'' (RStr ''v1'') fmempty))
     RNone RNone = Inl AttributeError \<and>
   TypeError \<noteq> UnknownKindError \<and> AttributeError \<noteq> UnknownKindError"
  by (simp add: iobject_from_raw_def get_def versions_def err_bind_def)

end
